theory Spec2Isabelle
  imports Main "HOL-Library.Word"
begin

section \<open>The Memory Wall controller (memoryWall.controller.js)\<close>

text \<open>
  A shallow embedding of the six request handlers of the controller and of the upload
  configuration above them. Every handler is a function from the request and the
  replies of its collaborators to the response it sends and the list of calls it made
  to the collaborators, in order. Console logging is left out: it changes neither the
  response nor the calls.
\<close>

subsection \<open>JavaScript strings and values\<close>

text \<open>
  A JavaScript string is a sequence of UTF-16 code units; \<open>.length\<close> counts them.
  String literals of the source are ASCII and are written \<open>ascii ''...''\<close>.
\<close>

type_synonym jsstring = "16 word list"

definition ascii :: "string \<Rightarrow> jsstring" where
  "ascii s = map (\<lambda>c. of_nat (of_char c)) s"

text \<open>
  A value that is a string or is missing. \<open>None\<close> stands for \<open>undefined\<close> (for the
  identifiers of the session also for \<open>null\<close>). The fields of a request body are text
  fields: values of another JSON type are outside this model.
\<close>

type_synonym jsval = "jsstring option"

text \<open>JavaScript truthiness: \<open>undefined\<close>, \<open>null\<close> and the empty string are falsy.\<close>

definition truthy :: "jsval \<Rightarrow> bool" where
  "truthy v = (case v of None \<Rightarrow> False | Some s \<Rightarrow> s \<noteq> [])"

text \<open>\<open>a || b\<close>\<close>

definition js_or :: "jsval \<Rightarrow> jsval \<Rightarrow> jsval" where
  "js_or a b = (if truthy a then a else b)"

text \<open>
  \<open>String.prototype.trim\<close> removes the code units of WhiteSpace and LineTerminator
  from both ends: U+0009 to U+000D, U+0020, U+00A0, U+1680, U+2000 to U+200A, U+2028,
  U+2029, U+202F, U+205F, U+3000 and U+FEFF.
\<close>

definition js_is_space :: "16 word \<Rightarrow> bool" where
  "js_is_space c =
     ((9 \<le> c \<and> c \<le> 13) \<or> c = 32 \<or> c = 160 \<or> c = 5760 \<or> (8192 \<le> c \<and> c \<le> 8202)
      \<or> c = 8232 \<or> c = 8233 \<or> c = 8239 \<or> c = 8287 \<or> c = 12288 \<or> c = 65279)"

definition js_trim :: "jsstring \<Rightarrow> jsstring" where
  "js_trim s = rev (dropWhile js_is_space (rev (dropWhile js_is_space s)))"

text \<open>
  \<open>toLowerCase\<close> on the letters A to Z; the other code units are kept. JavaScript
  lower-cases further code units, but a string that holds one of them does not
  lower-case to an allowed extension, so the test of \<open>fileFilter\<close> is the same.
\<close>

definition js_lower :: "16 word \<Rightarrow> 16 word" where
  "js_lower c = (if 65 \<le> c \<and> c \<le> 90 then c + 32 else c)"

definition toLowerCase :: "jsstring \<Rightarrow> jsstring" where
  "toLowerCase s = map js_lower s"

text \<open>\<open>s.includes(sub)\<close>: \<open>sub\<close> occurs in \<open>s\<close> as a contiguous run.\<close>

fun js_starts :: "jsstring \<Rightarrow> jsstring \<Rightarrow> bool" where
  "js_starts s [] = True"
| "js_starts [] (y # ys) = False"
| "js_starts (x # xs) (y # ys) = (x = y \<and> js_starts xs ys)"

fun js_includes :: "jsstring \<Rightarrow> jsstring \<Rightarrow> bool" where
  "js_includes [] sub = js_starts [] sub"
| "js_includes (x # xs) sub = (js_starts (x # xs) sub \<or> js_includes xs sub)"

text \<open>\<open>xs.join(sep)\<close>\<close>

fun join :: "jsstring list \<Rightarrow> jsstring \<Rightarrow> jsstring" where
  "join [] sep = []"
| "join [x] sep = x"
| "join (x # y # ys) sep = x @ sep @ join (y # ys) sep"

text \<open>
  \<open>path.extname\<close> of Node (POSIX paths): the last component of the path, trailing
  slashes dropped, from its last dot on; empty when that component has no dot, when its
  last dot is its first character, and when it is \<open>..\<close>.
\<close>

definition last_component :: "jsstring \<Rightarrow> jsstring" where
  "last_component p =
     rev (takeWhile (\<lambda>c. c \<noteq> 47) (dropWhile (\<lambda>c. c = 47) (rev p)))"

definition extname :: "jsstring \<Rightarrow> jsstring" where
  "extname p =
     (let b = last_component p;
          after = takeWhile (\<lambda>c. c \<noteq> 46) (rev b)
      in if 46 \<notin> set b then []
         else if length b = Suc (length after) then []
         else if b = [46, 46] then []
         else drop (length b - Suc (length after)) b)"

subsection \<open>Requests, responses and collaborators\<close>

text \<open>\<open>req.file\<close>, as multer's memory storage fills it (the buffer is not inspected).\<close>

record file_info =
  originalname :: jsstring
  fsize :: nat
  mimetype :: jsstring

text \<open>\<open>req.user\<close>, set by the authentication middleware.\<close>

record user_info =
  user_id :: jsval
  college_id :: jsval

text \<open>
  The object with the keys \<open>title\<close>, \<open>date\<close> and \<open>description\<close>: \<open>req.body\<close>, and also
  \<open>memoryData\<close> and \<open>updates\<close>, which the handlers build. \<open>None\<close> is a key that is
  missing; in \<open>memoryData\<close> a \<open>description\<close> of \<open>None\<close> is \<open>null\<close>.
\<close>

record memory_fields =
  title :: jsval
  date :: jsval
  description :: jsval

text \<open>\<open>req.query\<close> and the \<open>filters\<close> object built from it.\<close>

record query_fields =
  search :: jsval
  startDate :: jsval
  endDate :: jsval

record request =
  user :: user_info
  tenant :: jsval
  body :: memory_fields
  query :: query_fields
  params_id :: jsval

text \<open>
  Modelled from the spec: \<open>utils/response.js\<close> is not among the sources. The spec gives
  the envelope \<open>{success, message, data}\<close>, status 200 for a success unless the handler
  passes another one, the status the handler passes for an error, and 404 for not-found.
\<close>

record 'd response =
  status :: nat
  success :: bool
  message :: jsstring
  payload :: "'d option"

definition successResponse :: "'d \<Rightarrow> jsstring \<Rightarrow> nat \<Rightarrow> 'd response" where
  "successResponse d msg code = \<lparr>status = code, success = True, message = msg, payload = Some d\<rparr>"

definition errorResponse :: "jsstring \<Rightarrow> nat \<Rightarrow> 'd response" where
  "errorResponse msg code = \<lparr>status = code, success = False, message = msg, payload = None\<rparr>"

definition notFoundResponse :: "jsstring \<Rightarrow> 'd response" where
  "notFoundResponse msg = \<lparr>status = 404, success = False, message = msg, payload = None\<rparr>"

text \<open>
  The reply of \<open>supabase.from('profiles').select('college_id').eq('id', uid).single()\<close>:
  \<open>pr_data\<close> is \<open>None\<close> for a \<open>null\<close> row, otherwise the row's \<open>college_id\<close>.
\<close>

record profile_reply =
  pr_data :: "jsval option"
  pr_error :: jsval

text \<open>
  The collaborators of the controller, each given by its reply to a call. A service
  call that throws is \<open>Inl\<close> of the error's \<open>message\<close>; one that returns is \<open>Inr\<close> of the
  data. \<open>dateParse\<close> is the time value of \<open>new Date(s)\<close> in milliseconds, \<open>None\<close> for an
  invalid date; \<open>now\<close> is the time value of \<open>new Date()\<close>; \<open>tzOffset\<close> is what the local
  time zone adds to UTC at \<open>now\<close>, in milliseconds, and \<open>tzOffsetEnd\<close> what it adds at the
  end of the local day of \<open>now\<close> (another value on a day when the clocks change);
  \<open>max_image_size\<close> is \<open>parseInt(process.env.MAX_IMAGE_SIZE)\<close>, \<open>None\<close> for \<open>NaN\<close>.
\<close>

record 'd collaborators =
  profiles_single :: "jsval \<Rightarrow> profile_reply"
  svc_createMemory :: "memory_fields \<Rightarrow> file_info \<Rightarrow> jsval \<Rightarrow> jsval \<Rightarrow> jsstring + 'd"
  svc_getStudentMemories :: "jsval \<Rightarrow> jsval \<Rightarrow> query_fields \<Rightarrow> jsstring + 'd"
  svc_getMemoryById :: "jsval \<Rightarrow> jsval \<Rightarrow> jsval \<Rightarrow> jsstring + 'd option"
  svc_updateMemory :: "jsval \<Rightarrow> jsval \<Rightarrow> jsval \<Rightarrow> memory_fields \<Rightarrow> jsstring + 'd"
  svc_deleteMemory :: "jsval \<Rightarrow> jsval \<Rightarrow> jsval \<Rightarrow> jsstring + 'd"
  svc_getMemoryStats :: "jsval \<Rightarrow> jsval \<Rightarrow> jsstring + 'd"
  dateParse :: "jsstring \<Rightarrow> int option"
  now :: int
  tzOffset :: int
  tzOffsetEnd :: int
  max_image_size :: "int option"

text \<open>The calls a handler makes to its collaborators, with their arguments.\<close>

datatype call =
    ProfileLookup jsval
  | CreateMemory memory_fields file_info jsval jsval
  | GetStudentMemories jsval jsval query_fields
  | GetMemoryById jsval jsval jsval
  | UpdateMemory jsval jsval jsval memory_fields
  | DeleteMemory jsval jsval jsval
  | GetMemoryStats jsval jsval

subsection \<open>The upload configuration\<close>

definition allowedImageTypes :: "jsstring list" where
  "allowedImageTypes =
     [ascii ''jpg'', ascii ''jpeg'', ascii ''png'', ascii ''gif'', ascii ''webp'',
      ascii ''heic'', ascii ''heif'']"

text \<open>\<open>path.extname(file.originalname).toLowerCase().substring(1)\<close>\<close>

definition fileExtension :: "file_info \<Rightarrow> jsstring" where
  "fileExtension file = drop 1 (toLowerCase (extname (originalname file)))"

text \<open>
  \<open>fileFilter\<close> answers through its callback \<open>cb(error, accept)\<close>: \<open>Inr True\<close> is
  \<open>cb(null, true)\<close>, \<open>Inl m\<close> is \<open>cb(new Error(m), false)\<close>.
\<close>

definition fileFilter :: "file_info \<Rightarrow> jsstring + bool" where
  "fileFilter file =
     (if fileExtension file \<in> set allowedImageTypes then Inr True
      else Inl (ascii ''File type not allowed. Allowed image types: ''
                @ join allowedImageTypes (ascii '', '')))"

text \<open>\<open>limits.fileSize\<close>: \<open>parseInt(process.env.MAX_IMAGE_SIZE) || 10485760\<close>\<close>

definition fileSizeLimit :: "int option \<Rightarrow> int" where
  "fileSizeLimit parsed =
     (case parsed of None \<Rightarrow> 10485760 | Some n \<Rightarrow> if n = 0 then 10485760 else n)"

text \<open>The error multer hands to the callback: a \<open>MulterError\<close> with its code and message,
  or another error with its message.\<close>

datatype upload_error =
    MulterError jsstring jsstring
  | OtherError jsstring

text \<open>
  \<open>upload.single('photo')\<close> of multer on the file part of the form, if there is one:
  multer asks \<open>fileFilter\<close> first and passes its error on; it skips a file the filter
  does not accept; it fails with the code \<open>LIMIT_FILE_SIZE\<close> when the file has more
  bytes than \<open>limits.fileSize\<close>; otherwise it sets \<open>req.file\<close>. The result is the error
  and \<open>req.file\<close>.
\<close>

definition uploadMiddleware ::
  "int option \<Rightarrow> file_info option \<Rightarrow> upload_error option \<times> file_info option" where
  "uploadMiddleware parsed part =
     (case part of
        None \<Rightarrow> (None, None)
      | Some file \<Rightarrow>
          (case fileFilter file of
             Inl m \<Rightarrow> (Some (OtherError m), None)
           | Inr accept \<Rightarrow>
               if accept = False then (None, None)
               else if fileSizeLimit parsed < int (fsize file)
                 then (Some (MulterError (ascii ''LIMIT_FILE_SIZE'') (ascii ''File too large'')), None)
               else (None, Some file)))"

subsection \<open>The handlers\<close>

text \<open>\<open>today.setHours(23, 59, 59, 999)\<close> on \<open>new Date()\<close>: the local day of \<open>now\<close> is read
  with the offset in force at \<open>now\<close>, and its last millisecond is turned into a time
  value with the offset in force then.\<close>

definition msPerDay :: int where
  "msPerDay = 86400000"

definition endOfToday :: "int \<Rightarrow> int \<Rightarrow> int \<Rightarrow> int" where
  "endOfToday n off offEnd =
     ((n + off) div msPerDay) * msPerDay + (23 * 3600000 + 59 * 60000 + 59 * 1000 + 999)
       - offEnd"

text \<open>\<open>error.message || fallback\<close> in the catch blocks.\<close>

definition messageOr :: "jsstring \<Rightarrow> jsstring \<Rightarrow> jsstring" where
  "messageOr m fallback = (if m \<noteq> [] then m else fallback)"

text \<open>
  Lines 104 to 122 of \<open>createMemory\<close>: the college id and the calls made to find it.
\<close>

definition resolveCollegeId :: "'d collaborators \<Rightarrow> request \<Rightarrow> jsval \<times> call list" where
  "resolveCollegeId env req =
     (let collegeId = js_or (college_id (user req)) (tenant req)
      in if truthy collegeId then (collegeId, [])
         else (case pr_data (profiles_single env (user_id (user req))) of
                 None \<Rightarrow> (None, [ProfileLookup (user_id (user req))])
               | Some c \<Rightarrow> (js_or c None, [ProfileLookup (user_id (user req))])))"

text \<open>Lines 129 to 134 of \<open>createMemory\<close>: the \<open>memoryData\<close> object.\<close>

definition memoryData :: "jsstring \<Rightarrow> jsstring \<Rightarrow> jsval \<Rightarrow> memory_fields" where
  "memoryData t d desc =
     \<lparr>title = Some (js_trim t), date = Some d,
      description = (case desc of
                       None \<Rightarrow> None
                     | Some x \<Rightarrow> if x = [] then None else Some (js_trim x))\<rparr>"

text \<open>
  Lines 104 to 157 of \<open>createMemory\<close>, reached with the photo \<open>f\<close>, the title \<open>t\<close> and
  the date \<open>d\<close> once they have passed the checks: the college id, then the call of the
  service, whose exception the catch block answers.
\<close>

definition persistMemory ::
  "'d collaborators \<Rightarrow> request \<Rightarrow> file_info \<Rightarrow> jsstring \<Rightarrow> jsstring \<Rightarrow> 'd response \<times> call list" where
  "persistMemory env req f t d =
     (case resolveCollegeId env req of
        (collegeId, calls) \<Rightarrow>
          if truthy collegeId = False
          then (errorResponse (ascii ''College ID not found. Please update your profile.'') 400,
                calls)
          else
            (case svc_createMemory env (memoryData t d (description (body req))) f
                    (user_id (user req)) collegeId of
               Inr memory \<Rightarrow>
                 (successResponse memory (ascii ''Memory created successfully'') 201,
                  calls @ [CreateMemory (memoryData t d (description (body req))) f
                             (user_id (user req)) collegeId])
             | Inl m \<Rightarrow>
                 (errorResponse (messageOr m (ascii ''Failed to create memory'')) 500,
                  calls @ [CreateMemory (memoryData t d (description (body req))) f
                             (user_id (user req)) collegeId])))"

text \<open>
  The callback of \<open>createMemory\<close> (lines 44 to 158), given \<open>req.file\<close> and the error of
  the upload middleware.
\<close>

definition createMemory_cb ::
  "'d collaborators \<Rightarrow> request \<Rightarrow> file_info option \<Rightarrow> upload_error option
     \<Rightarrow> 'd response \<times> call list" where
  "createMemory_cb env req file err =
     (case err of
        Some (MulterError code m) \<Rightarrow>
          if code = ascii ''LIMIT_FILE_SIZE''
          then (errorResponse (ascii ''Photo size exceeds the limit (10MB)'') 400, [])
          else (errorResponse (ascii ''Photo upload error: '' @ m) 400, [])
      | Some (OtherError m) \<Rightarrow> (errorResponse m 400, [])
      | None \<Rightarrow>
     (case file of
        None \<Rightarrow> (errorResponse (ascii ''Photo is required. Please choose a photo.'') 400, [])
      | Some f \<Rightarrow>
     (case title (body req) of
        None \<Rightarrow> (errorResponse (ascii ''Title is required'') 400, [])
      | Some t \<Rightarrow>
          if t = [] \<or> js_trim t = []
          then (errorResponse (ascii ''Title is required'') 400, [])
          else if 200 < length (js_trim t)
          then (errorResponse (ascii ''Title must not exceed 200 characters'') 400, [])
          else
     (case date (body req) of
        None \<Rightarrow> (errorResponse (ascii ''Date is required'') 400, [])
      | Some d \<Rightarrow>
          if d = [] then (errorResponse (ascii ''Date is required'') 400, [])
          else
     (case dateParse env d of
        None \<Rightarrow> (errorResponse (ascii ''Invalid date format'') 400, [])
      | Some memoryDate \<Rightarrow>
          if endOfToday (now env) (tzOffset env) (tzOffsetEnd env) < memoryDate
          then (errorResponse (ascii ''Memory date cannot be in the future'') 400, [])
          else persistMemory env req f t d)))))"

text \<open>\<open>createMemory\<close>: the upload middleware, then the callback. \<open>part\<close> is the file
  part in the field \<open>photo\<close> of the form, if the form has one.\<close>

definition createMemory ::
  "'d collaborators \<Rightarrow> request \<Rightarrow> file_info option \<Rightarrow> 'd response \<times> call list" where
  "createMemory env req part =
     (case uploadMiddleware (max_image_size env) part of
        (err, file) \<Rightarrow> createMemory_cb env req file err)"

text \<open>The \<open>filters\<close> object of \<open>getAllMemories\<close>: a key is set when its query value is truthy.\<close>

definition keepTruthy :: "jsval \<Rightarrow> jsval" where
  "keepTruthy v = (if truthy v then v else None)"

definition getAllMemories :: "'d collaborators \<Rightarrow> request \<Rightarrow> 'd response \<times> call list" where
  "getAllMemories env req =
     (let filters = \<lparr>search = keepTruthy (search (query req)),
                     startDate = keepTruthy (startDate (query req)),
                     endDate = keepTruthy (endDate (query req))\<rparr>;
          collegeId = js_or (college_id (user req)) (tenant req)
      in (case svc_getStudentMemories env (user_id (user req)) collegeId filters of
            Inr memories \<Rightarrow>
              (successResponse memories (ascii ''Memories retrieved successfully'') 200,
               [GetStudentMemories (user_id (user req)) collegeId filters])
          | Inl m \<Rightarrow>
              (errorResponse (messageOr m (ascii ''Failed to fetch memories'')) 500,
               [GetStudentMemories (user_id (user req)) collegeId filters])))"

definition getMemoryById :: "'d collaborators \<Rightarrow> request \<Rightarrow> 'd response \<times> call list" where
  "getMemoryById env req =
     (let collegeId = js_or (college_id (user req)) (tenant req)
      in (case svc_getMemoryById env (params_id req) (user_id (user req)) collegeId of
            Inr None \<Rightarrow>
              (notFoundResponse (ascii ''Memory not found''),
               [GetMemoryById (params_id req) (user_id (user req)) collegeId])
          | Inr (Some memory) \<Rightarrow>
              (successResponse memory (ascii ''Memory retrieved successfully'') 200,
               [GetMemoryById (params_id req) (user_id (user req)) collegeId])
          | Inl m \<Rightarrow>
              (if m = ascii ''Memory not found'' then notFoundResponse m
               else errorResponse (messageOr m (ascii ''Failed to fetch memory'')) 500,
               [GetMemoryById (params_id req) (user_id (user req)) collegeId])))"

text \<open>The catch block of \<open>updateMemory\<close> and \<open>deleteMemory\<close>.\<close>

definition notFoundOr :: "jsstring \<Rightarrow> jsstring \<Rightarrow> 'd response" where
  "notFoundOr m fallback =
     (if js_includes m (ascii ''not found'') \<or> js_includes m (ascii ''permission'')
      then notFoundResponse m
      else errorResponse (messageOr m fallback) 500)"

definition updateMemory :: "'d collaborators \<Rightarrow> request \<Rightarrow> 'd response \<times> call list" where
  "updateMemory env req =
     (let collegeId = js_or (college_id (user req)) (tenant req)
      in
     (case (case title (body req) of
              None \<Rightarrow> Inr None
            | Some t \<Rightarrow>
                if js_trim t = [] then Inl (ascii ''Title cannot be empty'')
                else if 200 < length (js_trim t)
                  then Inl (ascii ''Title must not exceed 200 characters'')
                else Inr (Some t)) of
        Inl m \<Rightarrow> (errorResponse m 400, [])
      | Inr updates_title \<Rightarrow>
     (case (case date (body req) of
              None \<Rightarrow> Inr None
            | Some d \<Rightarrow>
                (case dateParse env d of
                   None \<Rightarrow> Inl (ascii ''Invalid date format'')
                 | Some memoryDate \<Rightarrow>
                     if endOfToday (now env) (tzOffset env) (tzOffsetEnd env) < memoryDate
                     then Inl (ascii ''Memory date cannot be in the future'')
                     else Inr (Some d))) of
        Inl m \<Rightarrow> (errorResponse m 400, [])
      | Inr updates_date \<Rightarrow>
          let updates = \<lparr>title = updates_title, date = updates_date,
                         description = description (body req)\<rparr>
          in if title updates = None \<and> date updates = None \<and> description updates = None
             then (errorResponse (ascii ''No valid fields to update'') 400, [])
             else
               (case svc_updateMemory env (params_id req) (user_id (user req)) collegeId updates of
                  Inr memory \<Rightarrow>
                    (successResponse memory (ascii ''Memory updated successfully'') 200,
                     [UpdateMemory (params_id req) (user_id (user req)) collegeId updates])
                | Inl m \<Rightarrow>
                    (notFoundOr m (ascii ''Failed to update memory''),
                     [UpdateMemory (params_id req) (user_id (user req)) collegeId updates])))))"

definition deleteMemory :: "'d collaborators \<Rightarrow> request \<Rightarrow> 'd response \<times> call list" where
  "deleteMemory env req =
     (let collegeId = js_or (college_id (user req)) (tenant req)
      in (case svc_deleteMemory env (params_id req) (user_id (user req)) collegeId of
            Inr deletedMemory \<Rightarrow>
              (successResponse deletedMemory (ascii ''Memory deleted successfully'') 200,
               [DeleteMemory (params_id req) (user_id (user req)) collegeId])
          | Inl m \<Rightarrow>
              (notFoundOr m (ascii ''Failed to delete memory''),
               [DeleteMemory (params_id req) (user_id (user req)) collegeId])))"

definition getMemoryStats :: "'d collaborators \<Rightarrow> request \<Rightarrow> 'd response \<times> call list" where
  "getMemoryStats env req =
     (let collegeId = js_or (college_id (user req)) (tenant req)
      in (case svc_getMemoryStats env (user_id (user req)) collegeId of
            Inr stats \<Rightarrow>
              (successResponse stats (ascii ''Memory statistics retrieved successfully'') 200,
               [GetMemoryStats (user_id (user req)) collegeId])
          | Inl m \<Rightarrow>
              (errorResponse (messageOr m (ascii ''Failed to fetch memory statistics'')) 500,
               [GetMemoryStats (user_id (user req)) collegeId])))"

subsection \<open>The persistence service of the specification\<close>

text \<open>A stored Memory, as the data model of the specification lists it.\<close>

record memory =
  mem_id :: jsval
  mem_fields :: memory_fields
  photo :: jsstring
  ownerUserId :: jsval
  tenantId :: jsval






subsection \<open>Notions of the specification\<close>

text \<open>The first non-empty value of a list of candidates, \<open>None\<close> when all are empty.\<close>

fun firstNonEmpty :: "jsval list \<Rightarrow> jsval" where
  "firstNonEmpty [] = None"
| "firstNonEmpty (v # vs) = (if truthy v then v else firstNonEmpty vs)"

text \<open>The tenant id of the owner's profile record: empty when there is no record.\<close>

definition profileTenant :: "'d collaborators \<Rightarrow> request \<Rightarrow> jsval" where
  "profileTenant env req =
     (case pr_data (profiles_single env (user_id (user req))) of None \<Rightarrow> None | Some c \<Rightarrow> c)"

text \<open>The six field checks of a create request, in the order the specification gives,
  what each one refuses, and its message.\<close>

datatype violation =
    PhotoMissing | TitleBlank | TitleTooLong | DateMissing | DateInvalid | DateInFuture

definition checkOrder :: "violation list" where
  "checkOrder = [PhotoMissing, TitleBlank, TitleTooLong, DateMissing, DateInvalid, DateInFuture]"

fun violated :: "'d collaborators \<Rightarrow> request \<Rightarrow> file_info option \<Rightarrow> violation \<Rightarrow> bool" where
  "violated env req file PhotoMissing = (file = None)"
| "violated env req file TitleBlank =
     (case title (body req) of None \<Rightarrow> True | Some t \<Rightarrow> js_trim t = [])"
| "violated env req file TitleTooLong =
     (case title (body req) of None \<Rightarrow> False | Some t \<Rightarrow> 200 < length (js_trim t))"
| "violated env req file DateMissing =
     (case date (body req) of None \<Rightarrow> True | Some d \<Rightarrow> d = [])"
| "violated env req file DateInvalid =
     (case date (body req) of None \<Rightarrow> False | Some d \<Rightarrow> dateParse env d = None)"
| "violated env req file DateInFuture =
     (case date (body req) of
        None \<Rightarrow> False
      | Some d \<Rightarrow> (case dateParse env d of
                    None \<Rightarrow> False
                  | Some ts \<Rightarrow> endOfToday (now env) (tzOffset env) (tzOffsetEnd env) < ts))"

fun violationMessage :: "violation \<Rightarrow> jsstring" where
  "violationMessage PhotoMissing = ascii ''Photo is required. Please choose a photo.''"
| "violationMessage TitleBlank = ascii ''Title is required''"
| "violationMessage TitleTooLong = ascii ''Title must not exceed 200 characters''"
| "violationMessage DateMissing = ascii ''Date is required''"
| "violationMessage DateInvalid = ascii ''Invalid date format''"
| "violationMessage DateInFuture = ascii ''Memory date cannot be in the future''"

text \<open>
  An update body that passes the checks of \<open>updateMemory\<close>: a title, when present, is
  not blank and has at most 200 characters once trimmed; a date, when present, parses
  and is not after the end of today; and one of the three fields at least is present.
\<close>

definition updateBodyValid :: "'d collaborators \<Rightarrow> request \<Rightarrow> bool" where
  "updateBodyValid env req =
     ((case title (body req) of
         None \<Rightarrow> True
       | Some t \<Rightarrow> js_trim t \<noteq> [] \<and> length (js_trim t) \<le> 200)
      \<and> (case date (body req) of
            None \<Rightarrow> True
          | Some d \<Rightarrow> (case dateParse env d of
                        None \<Rightarrow> False
                      | Some ts \<Rightarrow> ts \<le> endOfToday (now env) (tzOffset env) (tzOffsetEnd env)))
      \<and> (title (body req) = None \<and> date (body req) = None
           \<and> description (body req) = None) = False)"

text \<open>
  The time value of midnight UTC of a civil date. It is what \<open>new Date(s)\<close> has for a
  string \<open>s\<close> of the date-only form \<open>YYYY-MM-DD\<close>, which ECMAScript reads as UTC.
\<close>

definition daysFromCivil :: "int \<Rightarrow> int \<Rightarrow> int \<Rightarrow> int" where
  "daysFromCivil y m d =
     (let y' = (if m \<le> 2 then y - 1 else y);
          era = y' div 400;
          yoe = y' - era * 400;
          mp = (if 2 < m then m - 3 else m + 9);
          doy = (153 * mp + 2) div 5 + d - 1;
          doe = yoe * 365 + yoe div 4 - yoe div 100 + doy
      in era * 146097 + doe - 719468)"

definition utcMidnight :: "int \<Rightarrow> int \<Rightarrow> int \<Rightarrow> int" where
  "utcMidnight y m d = daysFromCivil y m d * msPerDay"

subsection \<open>Example requests\<close>

text \<open>
  A server at UTC+05:30 on 2026-11-03 at 10:00 UTC, whose services answer every call,
  and a student who uploads a 2 MB JPEG with the title \<open>Field Trip\<close> dated today.
\<close>

definition demo_env :: "memory collaborators" where
  "demo_env =
     \<lparr>profiles_single = (\<lambda>uid. \<lparr>pr_data = Some (Some (ascii ''college-9'')), pr_error = None\<rparr>),
      svc_createMemory =
        (\<lambda>md f uid cid. Inr \<lparr>mem_id = Some (ascii ''m-1''), mem_fields = md,
                              photo = ascii ''memories/m-1.jpg'', ownerUserId = uid,
                              tenantId = cid\<rparr>),
      svc_getStudentMemories = (\<lambda>uid cid filters. Inl (ascii ''not modelled'')),
      svc_getMemoryById = (\<lambda>i uid cid. Inr None),
      svc_updateMemory =
        (\<lambda>i uid cid u. Inr \<lparr>mem_id = i, mem_fields = u, photo = ascii ''memories/m-1.jpg'',
                             ownerUserId = uid, tenantId = cid\<rparr>),
      svc_deleteMemory = (\<lambda>i uid cid. Inl (ascii ''Memory not found'')),
      svc_getMemoryStats = (\<lambda>uid cid. Inl (ascii ''not modelled'')),
      dateParse =
        (\<lambda>s. if s = ascii ''2026-11-03'' then Some (utcMidnight 2026 11 3)
              else if s = ascii ''2026-11-04'' then Some (utcMidnight 2026 11 4)
              else None),
      now = utcMidnight 2026 11 3 + 10 * 3600000,
      tzOffset = 19800000,
      tzOffsetEnd = 19800000,
      max_image_size = None\<rparr>"

definition demo_file :: file_info where
  "demo_file = \<lparr>originalname = ascii ''trip.JPG'', fsize = 2000000,
                 mimetype = ascii ''image/jpeg''\<rparr>"

definition demo_request :: request where
  "demo_request =
     \<lparr>user = \<lparr>user_id = Some (ascii ''student-1''), college_id = Some (ascii ''college-1'')\<rparr>,
      tenant = None,
      body = \<lparr>title = Some (ascii '' Field Trip ''), date = Some (ascii ''2026-11-03''),
              description = None\<rparr>,
      query = \<lparr>search = None, startDate = None, endDate = None\<rparr>,
      params_id = Some (ascii ''m-1'')\<rparr>"

text \<open>The same student with no tenant in the session and none in the request.\<close>

definition demo_request_no_tenant :: request where
  "demo_request_no_tenant =
     demo_request\<lparr>user := \<lparr>user_id = Some (ascii ''student-1''), college_id = None\<rparr>\<rparr>"


text \<open>
  The same instant on a server at UTC-05:00, where it is 05:00 on 2026-11-03, and a
  request dated 2026-11-04, the day after.
\<close>

definition demo_env_west :: "memory collaborators" where
  "demo_env_west = demo_env\<lparr>tzOffset := - 18000000, tzOffsetEnd := - 18000000\<rparr>"

definition demo_request_tomorrow :: request where
  "demo_request_tomorrow =
     demo_request\<lparr>body := \<lparr>title = Some (ascii '' Field Trip ''),
                            date = Some (ascii ''2026-11-04''), description = None\<rparr>\<rparr>"

text \<open>The same server when the insert of the persistence service is refused.\<close>

definition demo_env_failing :: "memory collaborators" where
  "demo_env_failing =
     demo_env\<lparr>svc_createMemory :=
       \<lambda>md f uid cid.
         Inl (ascii ''new row violates row-level security policy for table memories'')\<rparr>"

section \<open>Properties\<close>

subsection \<open>Shared lemmas\<close>

lemma upload_accepts:
  assumes "fileExtension f \<in> set allowedImageTypes"
    and "int (fsize f) \<le> fileSizeLimit parsed"
  shows "uploadMiddleware parsed (Some f) = (None, Some f)"
  using assms by (simp add: uploadMiddleware_def fileFilter_def)

text \<open>A create request that passes the upload and the six field checks reaches the
  resolution of the college id.\<close>

lemma createMemory_checked:
  assumes "fileExtension f \<in> set allowedImageTypes"
    and "int (fsize f) \<le> fileSizeLimit (max_image_size env)"
    and "title (body req) = Some t" and "js_trim t \<noteq> []" and "length (js_trim t) \<le> 200"
    and "date (body req) = Some d" and "d \<noteq> []" and "dateParse env d = Some ts"
    and "ts \<le> endOfToday (now env) (tzOffset env) (tzOffsetEnd env)"
  shows "createMemory env req (Some f) = persistMemory env req f t d"
proof -
  have "t \<noteq> []" using assms(4) by (auto simp: js_trim_def)
  then show ?thesis
    using assms by (simp add: createMemory_def upload_accepts createMemory_cb_def)
qed

text \<open>An update whose body passes the checks calls the service once, with the body as
  it came; an update whose body fails a check is answered with 400 and calls nothing.\<close>

lemma updateMemory_checked:
  assumes "updateBodyValid env req"
  shows "updateMemory env req =
           (case svc_updateMemory env (params_id req) (user_id (user req))
                   (js_or (college_id (user req)) (tenant req)) (body req) of
              Inr memory \<Rightarrow>
                (successResponse memory (ascii ''Memory updated successfully'') 200,
                 [UpdateMemory (params_id req) (user_id (user req))
                    (js_or (college_id (user req)) (tenant req)) (body req)])
            | Inl m \<Rightarrow>
                (notFoundOr m (ascii ''Failed to update memory''),
                 [UpdateMemory (params_id req) (user_id (user req))
                    (js_or (college_id (user req)) (tenant req)) (body req)]))"
proof -
  obtain x y z where b: "body req = \<lparr>title = x, date = y, description = z\<rparr>"
    by (cases "body req") auto
  show ?thesis
    using assms
    by (auto simp: updateBodyValid_def updateMemory_def Let_def b
        split: option.splits sum.splits)
qed

lemma updateMemory_refused:
  assumes "\<not> updateBodyValid env req"
  shows "status (fst (updateMemory env req)) = 400 \<and> snd (updateMemory env req) = []"
  using assms
  by (auto simp: updateBodyValid_def updateMemory_def Let_def errorResponse_def
      split: option.splits sum.splits)


text \<open>Facts of the example request.\<close>

lemma demo_file_ext: "fileExtension demo_file = ascii ''jpg''"
  by (simp add: fileExtension_def demo_file_def extname_def last_component_def toLowerCase_def
      js_lower_def ascii_def)

lemma demo_file_allowed: "fileExtension demo_file \<in> set allowedImageTypes"
  by (simp add: demo_file_ext allowedImageTypes_def)

lemma demo_file_size: "int (fsize demo_file) \<le> fileSizeLimit (max_image_size demo_env)"
  by (simp add: demo_file_def demo_env_def fileSizeLimit_def)

lemma demo_title_trim: "js_trim (ascii '' Field Trip '') = ascii ''Field Trip''"
  by (simp add: js_trim_def js_is_space_def ascii_def)

lemma demo_title_ok:
  "js_trim (ascii '' Field Trip '') \<noteq> []" "length (js_trim (ascii '' Field Trip '')) \<le> 200"
  unfolding demo_title_trim by (simp_all add: ascii_def)

lemma demo_date_ok: "ascii ''2026-11-03'' \<noteq> []"
  by (simp add: ascii_def)

lemma demo_parse:
  "dateParse demo_env (ascii ''2026-11-03'') = Some 1793664000000"
  "dateParse demo_env (ascii ''2026-11-04'') = Some 1793750400000"
  by (simp_all add: demo_env_def ascii_def utcMidnight_def daysFromCivil_def msPerDay_def)

lemma demo_end: "endOfToday (now demo_env) (tzOffset demo_env) (tzOffsetEnd demo_env) = 1793730599999"
  by (simp add: endOfToday_def demo_env_def utcMidnight_def daysFromCivil_def msPerDay_def)

lemma demo_not_future: "1793664000000 \<le> endOfToday (now demo_env) (tzOffset demo_env) (tzOffsetEnd demo_env)"
  by (simp add: demo_end)

lemma demo_request_fields:
  "title (body demo_request) = Some (ascii '' Field Trip '')"
  "date (body demo_request) = Some (ascii ''2026-11-03'')"
  "description (body demo_request) = None"
  "college_id (user demo_request) = Some (ascii ''college-1'')"
  "user_id (user demo_request) = Some (ascii ''student-1'')"
  "tenant demo_request = None"
  "params_id demo_request = Some (ascii ''m-1'')"
  by (simp_all add: demo_request_def)

lemma demo_request_no_tenant_fields:
  "title (body demo_request_no_tenant) = Some (ascii '' Field Trip '')"
  "date (body demo_request_no_tenant) = Some (ascii ''2026-11-03'')"
  "description (body demo_request_no_tenant) = None"
  "college_id (user demo_request_no_tenant) = None"
  "user_id (user demo_request_no_tenant) = Some (ascii ''student-1'')"
  "tenant demo_request_no_tenant = None"
  "params_id demo_request_no_tenant = Some (ascii ''m-1'')"
  by (simp_all add: demo_request_no_tenant_def demo_request_def)

lemma demo_truthy:
  "truthy (Some (ascii ''college-9''))" "truthy (Some (ascii ''college-1''))" "\<not> truthy None"
  by (simp_all add: truthy_def ascii_def)

lemma demo_memoryData:
  "memoryData (ascii '' Field Trip '') (ascii ''2026-11-03'') None =
     \<lparr>title = Some (ascii ''Field Trip''), date = Some (ascii ''2026-11-03''), description = None\<rparr>"
  by (simp add: memoryData_def demo_title_trim)

lemma demo_resolve: "resolveCollegeId demo_env demo_request = (Some (ascii ''college-1''), [])"
  by (simp add: resolveCollegeId_def js_or_def demo_request_fields demo_truthy)

lemma failing_facts:
  "int (fsize demo_file) \<le> fileSizeLimit (max_image_size demo_env_failing)"
  "dateParse demo_env_failing (ascii ''2026-11-03'') = Some 1793664000000"
  "1793664000000 \<le> endOfToday (now demo_env_failing) (tzOffset demo_env_failing) (tzOffsetEnd demo_env_failing)"
  "resolveCollegeId demo_env_failing demo_request = (Some (ascii ''college-1''), [])"
  "svc_createMemory demo_env_failing md f uid cid =
     Inl (ascii ''new row violates row-level security policy for table memories'')"
  using demo_file_size demo_parse(1) demo_not_future
  by (simp_all add: demo_env_failing_def resolveCollegeId_def js_or_def demo_request_fields
      demo_truthy)



text \<open>A date after the end of today is refused by create and by update, whatever else
  the request holds.\<close>

lemma createMemory_future_date:
  assumes "date (body req) = Some d" and "dateParse env d = Some ts"
    and "endOfToday (now env) (tzOffset env) (tzOffsetEnd env) < ts"
  shows "status (fst (createMemory env req part)) = 400 \<and> snd (createMemory env req part) = []"
  using assms
  by (auto simp: createMemory_def uploadMiddleware_def createMemory_cb_def errorResponse_def
      split: option.splits sum.splits upload_error.splits)

lemma updateMemory_future_date:
  assumes "date (body req) = Some d" and "dateParse env d = Some ts"
    and "endOfToday (now env) (tzOffset env) (tzOffsetEnd env) < ts"
  shows "status (fst (updateMemory env req)) = 400 \<and> snd (updateMemory env req) = []"
  using assms
  by (auto simp: updateMemory_def errorResponse_def split: option.splits)

subsection \<open>Tenant resolution of create\<close>

text \<open>
  C1: for a create request that has passed the upload and the field checks, the tenant
  id is the first non-empty value among the session user's tenant id, the tenant of the
  request context and the tenant id of the owner's profile record, in this order. The
  profile is looked up exactly when the first two are empty. When the resolved value is
  non-empty it is the one passed to the persistence service; when all three are empty
  the answer is the 400 error about the college id and the service is not called.
\<close>

theorem createMemory_tenant_resolution:
  assumes "fileExtension f \<in> set allowedImageTypes"
    and "int (fsize f) \<le> fileSizeLimit (max_image_size env)"
    and "title (body req) = Some t" and "js_trim t \<noteq> []" and "length (js_trim t) \<le> 200"
    and "date (body req) = Some d" and "d \<noteq> []" and "dateParse env d = Some ts"
    and "ts \<le> endOfToday (now env) (tzOffset env) (tzOffsetEnd env)"
    and "resolved = firstNonEmpty [college_id (user req), tenant req, profileTenant env req]"
    and "lookups = (if truthy (college_id (user req)) \<or> truthy (tenant req) then []
                    else [ProfileLookup (user_id (user req))])"
  shows "(truthy resolved \<longrightarrow>
            snd (createMemory env req (Some f)) =
              lookups @ [CreateMemory (memoryData t d (description (body req))) f
                           (user_id (user req)) resolved])
       \<and> (\<not> truthy resolved \<longrightarrow>
            createMemory env req (Some f) =
              (errorResponse (ascii ''College ID not found. Please update your profile.'') 400,
               lookups))"
proof -
  have c: "createMemory env req (Some f) = persistMemory env req f t d"
    using assms(1-9) by (rule createMemory_checked)
  show ?thesis
    unfolding c assms(10,11)
    by (auto simp: persistMemory_def resolveCollegeId_def js_or_def profileTenant_def
        split: option.splits sum.splits)
qed

theorem createMemory_tenant_resolution_witness:
  "snd (createMemory demo_env demo_request_no_tenant (Some demo_file)) =
     [ProfileLookup (Some (ascii ''student-1'')),
      CreateMemory \<lparr>title = Some (ascii ''Field Trip''), date = Some (ascii ''2026-11-03''),
                    description = None\<rparr>
        demo_file (Some (ascii ''student-1'')) (Some (ascii ''college-9''))]
   \<and> snd (createMemory demo_env demo_request (Some demo_file)) =
     [CreateMemory \<lparr>title = Some (ascii ''Field Trip''), date = Some (ascii ''2026-11-03''),
                    description = None\<rparr>
        demo_file (Some (ascii ''student-1'')) (Some (ascii ''college-1''))]
   \<and> createMemory (demo_env\<lparr>profiles_single := \<lambda>uid. \<lparr>pr_data = None, pr_error = None\<rparr>\<rparr>)
         demo_request_no_tenant (Some demo_file) =
       (errorResponse (ascii ''College ID not found. Please update your profile.'') 400,
        [ProfileLookup (Some (ascii ''student-1''))])"
proof -
  let ?t = "ascii '' Field Trip ''" and ?d = "ascii ''2026-11-03''"
  let ?env' = "demo_env\<lparr>profiles_single := \<lambda>uid. \<lparr>pr_data = None, pr_error = None\<rparr>\<rparr>"
  have size: "int (fsize demo_file) \<le> fileSizeLimit (max_image_size ?env')"
    using demo_file_size by simp
  have p: "dateParse ?env' ?d = Some 1793664000000"
    using demo_parse(1) by simp
  have e: "1793664000000 \<le> endOfToday (now ?env') (tzOffset ?env') (tzOffsetEnd ?env')"
    using demo_not_future by simp
  note a = createMemory_tenant_resolution
    [OF demo_file_allowed demo_file_size demo_request_no_tenant_fields(1) demo_title_ok
        demo_request_no_tenant_fields(2) demo_date_ok demo_parse(1) demo_not_future refl refl]
  note b = createMemory_tenant_resolution
    [OF demo_file_allowed demo_file_size demo_request_fields(1) demo_title_ok
        demo_request_fields(2) demo_date_ok demo_parse(1) demo_not_future refl refl]
  note c = createMemory_tenant_resolution
    [OF demo_file_allowed size demo_request_no_tenant_fields(1) demo_title_ok
        demo_request_no_tenant_fields(2) demo_date_ok p e refl refl]
  have 1: "profileTenant demo_env demo_request_no_tenant = Some (ascii ''college-9'')"
    "profileTenant ?env' demo_request_no_tenant = None"
    by (simp_all add: profileTenant_def demo_env_def)
  show ?thesis
    using a b c
    by (simp add: 1 demo_request_no_tenant_fields demo_request_fields demo_truthy
        demo_memoryData)
qed

subsection \<open>An update without fields\<close>

text \<open>
  C9: an update request whose body has none of the fields title, date and description
  is answered with status 400 and the message \<open>No valid fields to update\<close>, and the
  persistence service is not called.
\<close>

theorem updateMemory_no_fields:
  assumes "title (body req) = None" and "date (body req) = None"
    and "description (body req) = None"
  shows "updateMemory env req = (errorResponse (ascii ''No valid fields to update'') 400, [])"
  using assms by (simp add: updateMemory_def)

theorem updateMemory_no_fields_witness:
  "updateMemory demo_env
     (demo_request\<lparr>body := \<lparr>title = None, date = None, description = None\<rparr>\<rparr>) =
     (errorResponse (ascii ''No valid fields to update'') 400, [])"
  using updateMemory_no_fields
    [of "demo_request\<lparr>body := \<lparr>title = None, date = None, description = None\<rparr>\<rparr>" demo_env]
  by simp

subsection \<open>The order of the field checks of create\<close>

text \<open>
  C2: when the upload middleware reports no error, the field checks of create run in
  the order photo presence, title presence or blankness, trimmed title length (at most
  200), date presence, date format, date not in the future. The first check that fails
  decides the answer: status 400 with the message of that check, which no other check
  has, and no call is made to the persistence service.
\<close>

theorem createMemory_validation_order:
  assumes "uploadMiddleware (max_image_size env) part = (None, file)"
    and "find (violated env req file) checkOrder = Some v"
  shows "createMemory env req part = (errorResponse (violationMessage v) 400, [])
         \<and> (\<forall>w. violationMessage w = violationMessage v \<longrightarrow> w = v)"
proof
  show "createMemory env req part = (errorResponse (violationMessage v) 400, [])"
    using assms
    by (auto simp: createMemory_def createMemory_cb_def checkOrder_def js_trim_def
        split: option.splits if_splits)
  show "\<forall>w. violationMessage w = violationMessage v \<longrightarrow> w = v"
  proof (intro allI impI)
    fix w assume "violationMessage w = violationMessage v"
    then show "w = v" by (cases w; cases v; simp add: ascii_def)
  qed
qed

theorem createMemory_validation_order_witness:
  "createMemory demo_env
     (demo_request\<lparr>body := \<lparr>title = Some (ascii '' Field Trip ''),
                             date = Some (ascii ''2026-11-04''), description = None\<rparr>\<rparr>)
     (Some demo_file) =
     (errorResponse (ascii ''Memory date cannot be in the future'') 400, [])
   \<and> createMemory demo_env
     (demo_request\<lparr>body := \<lparr>title = Some (ascii ''  ''),
                             date = Some (ascii ''2026-11-04''), description = None\<rparr>\<rparr>)
     (Some demo_file) =
     (errorResponse (ascii ''Title is required'') 400, [])
   \<and> createMemory demo_env
     (demo_request\<lparr>body := \<lparr>title = None, date = None, description = None\<rparr>\<rparr>) None =
     (errorResponse (ascii ''Photo is required. Please choose a photo.'') 400, [])"
proof -
  let ?r1 = "demo_request\<lparr>body := \<lparr>title = Some (ascii '' Field Trip ''),
                             date = Some (ascii ''2026-11-04''), description = None\<rparr>\<rparr>"
  let ?r2 = "demo_request\<lparr>body := \<lparr>title = Some (ascii ''  ''),
                             date = Some (ascii ''2026-11-04''), description = None\<rparr>\<rparr>"
  let ?r3 = "demo_request\<lparr>body := \<lparr>title = None, date = None, description = None\<rparr>\<rparr>"
  have u: "uploadMiddleware (max_image_size demo_env) (Some demo_file) = (None, Some demo_file)"
    using demo_file_allowed demo_file_size by (rule upload_accepts)
  have u3: "uploadMiddleware (max_image_size demo_env) None = (None, None)"
    by (simp add: uploadMiddleware_def)
  have blank: "js_trim (ascii ''  '') = []"
    by (simp add: js_trim_def js_is_space_def ascii_def)
  have f1: "find (violated demo_env ?r1 (Some demo_file)) checkOrder = Some DateInFuture"
    using demo_title_ok demo_parse(2) demo_end
    by (simp add: checkOrder_def) (simp add: ascii_def)
  have f2: "find (violated demo_env ?r2 (Some demo_file)) checkOrder = Some TitleBlank"
    by (simp add: checkOrder_def blank)
  have f3: "find (violated demo_env ?r3 None) checkOrder = Some PhotoMissing"
    by (simp add: checkOrder_def)
  show ?thesis
    using createMemory_validation_order [OF u f1] createMemory_validation_order [OF u f2]
      createMemory_validation_order [OF u3 f3]
    by simp
qed

subsection \<open>Not found on update and delete\<close>




subsection \<open>What update passes to the service\<close>

text \<open>
  C4: an update whose title and description carry spaces at both ends passes the checks,
  and the service receives both values as they came, not trimmed.
\<close>

theorem updateMemory_passes_untrimmed:
  "updateMemory demo_env
     (demo_request\<lparr>body := \<lparr>title = Some (ascii '' Field Trip ''), date = None,
                             description = Some (ascii ''  by the lake  '')\<rparr>\<rparr>) =
     (successResponse
        \<lparr>mem_id = Some (ascii ''m-1''),
         mem_fields = \<lparr>title = Some (ascii '' Field Trip ''), date = None,
                       description = Some (ascii ''  by the lake  '')\<rparr>,
         photo = ascii ''memories/m-1.jpg'', ownerUserId = Some (ascii ''student-1''),
         tenantId = Some (ascii ''college-1'')\<rparr>
        (ascii ''Memory updated successfully'') 200,
      [UpdateMemory (Some (ascii ''m-1'')) (Some (ascii ''student-1'')) (Some (ascii ''college-1''))
         \<lparr>title = Some (ascii '' Field Trip ''), date = None,
          description = Some (ascii ''  by the lake  '')\<rparr>])
   \<and> js_trim (ascii '' Field Trip '') \<noteq> ascii '' Field Trip ''
   \<and> js_trim (ascii ''  by the lake  '') \<noteq> ascii ''  by the lake  ''"
proof -
  have c: "js_or (college_id (user demo_request)) (tenant demo_request) = Some (ascii ''college-1'')"
    by (simp add: js_or_def demo_request_fields demo_truthy)
  have t: "js_trim (ascii '' Field Trip '') \<noteq> ascii '' Field Trip ''"
    unfolding demo_title_trim by (simp add: ascii_def)
  have d: "js_trim (ascii ''  by the lake  '') \<noteq> ascii ''  by the lake  ''"
    by (simp add: js_trim_def js_is_space_def ascii_def)
  have u: "updateMemory demo_env
     (demo_request\<lparr>body := \<lparr>title = Some (ascii '' Field Trip ''), date = None,
                             description = Some (ascii ''  by the lake  '')\<rparr>\<rparr>) =
     (successResponse
        \<lparr>mem_id = Some (ascii ''m-1''),
         mem_fields = \<lparr>title = Some (ascii '' Field Trip ''), date = None,
                       description = Some (ascii ''  by the lake  '')\<rparr>,
         photo = ascii ''memories/m-1.jpg'', ownerUserId = Some (ascii ''student-1''),
         tenantId = Some (ascii ''college-1'')\<rparr>
        (ascii ''Memory updated successfully'') 200,
      [UpdateMemory (Some (ascii ''m-1'')) (Some (ascii ''student-1'')) (Some (ascii ''college-1''))
         \<lparr>title = Some (ascii '' Field Trip ''), date = None,
          description = Some (ascii ''  by the lake  '')\<rparr>])"
    using demo_title_ok c
    by (simp add: updateMemory_def demo_request_fields)
       (simp add: demo_env_def Let_def demo_request_fields)
  show ?thesis using u t d by simp
qed

subsection \<open>A failing service on create\<close>

text \<open>
  C5, as amended: when a create request has passed the checks, the college id is found
  and the persistence service throws, the answer has status 500 and carries the message
  of the thrown error, or \<open>Failed to create memory\<close> when that message is empty.
\<close>

theorem createMemory_service_failure:
  assumes "fileExtension f \<in> set allowedImageTypes"
    and "int (fsize f) \<le> fileSizeLimit (max_image_size env)"
    and "title (body req) = Some t" and "js_trim t \<noteq> []" and "length (js_trim t) \<le> 200"
    and "date (body req) = Some d" and "d \<noteq> []" and "dateParse env d = Some ts"
    and "ts \<le> endOfToday (now env) (tzOffset env) (tzOffsetEnd env)"
    and "resolveCollegeId env req = (c, calls)" and "truthy c"
    and "svc_createMemory env (memoryData t d (description (body req))) f
           (user_id (user req)) c = Inl m"
  shows "createMemory env req (Some f) =
           (errorResponse (if m = [] then ascii ''Failed to create memory'' else m) 500,
            calls @ [CreateMemory (memoryData t d (description (body req))) f
                       (user_id (user req)) c])"
proof -
  have "createMemory env req (Some f) = persistMemory env req f t d"
    using assms(1-9) by (rule createMemory_checked)
  then show ?thesis
    using assms(10-12) by (simp add: persistMemory_def messageOr_def)
qed

theorem createMemory_service_failure_witness:
  "createMemory demo_env_failing demo_request (Some demo_file) =
     (errorResponse (ascii ''new row violates row-level security policy for table memories'') 500,
      [CreateMemory \<lparr>title = Some (ascii ''Field Trip''), date = Some (ascii ''2026-11-03''),
                     description = None\<rparr>
         demo_file (Some (ascii ''student-1'')) (Some (ascii ''college-1''))])"
  using createMemory_service_failure
    [OF demo_file_allowed failing_facts(1) demo_request_fields(1) demo_title_ok
        demo_request_fields(2) demo_date_ok failing_facts(2) failing_facts(3) failing_facts(4)
        demo_truthy(2) failing_facts(5)]
  by (simp add: demo_request_fields demo_memoryData) (simp add: ascii_def)

text \<open>The message of the service error reaches the client.\<close>

theorem createMemory_leaks_service_message:
  "status (fst (createMemory demo_env_failing demo_request (Some demo_file))) = 500
   \<and> message (fst (createMemory demo_env_failing demo_request (Some demo_file))) =
       ascii ''new row violates row-level security policy for table memories''
   \<and> message (fst (createMemory demo_env_failing demo_request (Some demo_file))) \<noteq>
       ascii ''Failed to create memory''"
proof -
  have "createMemory demo_env_failing demo_request (Some demo_file) =
          persistMemory demo_env_failing demo_request demo_file (ascii '' Field Trip '')
            (ascii ''2026-11-03'')"
    using demo_file_allowed failing_facts(1) demo_request_fields(1) demo_title_ok
        demo_request_fields(2) demo_date_ok failing_facts(2) failing_facts(3)
    by (rule createMemory_checked)
  then show ?thesis
    by (simp add: persistMemory_def failing_facts demo_truthy messageOr_def errorResponse_def)
       (simp add: ascii_def)
qed

subsection \<open>The size limit\<close>

text \<open>
  C6: the limit is 10485760 bytes when the environment gives none. With the limit
  configured to 5242880 bytes, a photo of 6000000 bytes is refused with status 400, and
  the message names 10MB.
\<close>

theorem size_message_ignores_configured_limit:
  "fileSizeLimit None = 10485760
   \<and> fileSizeLimit (max_image_size (demo_env\<lparr>max_image_size := Some 5242880\<rparr>)) = 5242880
   \<and> createMemory (demo_env\<lparr>max_image_size := Some 5242880\<rparr>) demo_request
       (Some (demo_file\<lparr>fsize := 6000000\<rparr>)) =
       (errorResponse (ascii ''Photo size exceeds the limit (10MB)'') 400, [])"
proof -
  have e: "fileExtension (demo_file\<lparr>fsize := 6000000\<rparr>) = fileExtension demo_file"
    by (simp add: fileExtension_def)
  have "uploadMiddleware (Some 5242880) (Some (demo_file\<lparr>fsize := 6000000\<rparr>)) =
          (Some (MulterError (ascii ''LIMIT_FILE_SIZE'') (ascii ''File too large'')), None)"
    using demo_file_allowed by (simp add: uploadMiddleware_def fileFilter_def e fileSizeLimit_def)
  then show ?thesis
    by (simp add: createMemory_def createMemory_cb_def fileSizeLimit_def)
qed

subsection \<open>Dates and today\<close>

text \<open>
  C7: on a server at UTC-05:00, where it is 05:00 on 2026-11-03, a request dated
  2026-11-04 is not refused: its date is midnight UTC of 2026-11-04, which is not after
  the end of the local day, so create answers with 201 and update with 200, and both
  pass the date to the service.
\<close>

theorem tomorrow_accepted_west_of_utc:
  "utcMidnight 2026 11 3 \<le> now demo_env_west + tzOffset demo_env_west
   \<and> now demo_env_west + tzOffset demo_env_west < utcMidnight 2026 11 4
   \<and> dateParse demo_env_west (ascii ''2026-11-04'') = Some (utcMidnight 2026 11 4)
   \<and> createMemory demo_env_west demo_request_tomorrow (Some demo_file) =
       (successResponse
          \<lparr>mem_id = Some (ascii ''m-1''),
           mem_fields = \<lparr>title = Some (ascii ''Field Trip''), date = Some (ascii ''2026-11-04''),
                         description = None\<rparr>,
           photo = ascii ''memories/m-1.jpg'', ownerUserId = Some (ascii ''student-1''),
           tenantId = Some (ascii ''college-1'')\<rparr>
          (ascii ''Memory created successfully'') 201,
        [CreateMemory \<lparr>title = Some (ascii ''Field Trip''), date = Some (ascii ''2026-11-04''),
                       description = None\<rparr>
           demo_file (Some (ascii ''student-1'')) (Some (ascii ''college-1''))])
   \<and> updateMemory demo_env_west demo_request_tomorrow =
       (successResponse
          \<lparr>mem_id = Some (ascii ''m-1''),
           mem_fields = \<lparr>title = Some (ascii '' Field Trip ''),
                         date = Some (ascii ''2026-11-04''), description = None\<rparr>,
           photo = ascii ''memories/m-1.jpg'', ownerUserId = Some (ascii ''student-1''),
           tenantId = Some (ascii ''college-1'')\<rparr>
          (ascii ''Memory updated successfully'') 200,
        [UpdateMemory (Some (ascii ''m-1'')) (Some (ascii ''student-1''))
           (Some (ascii ''college-1''))
           \<lparr>title = Some (ascii '' Field Trip ''), date = Some (ascii ''2026-11-04''),
            description = None\<rparr>])"
proof -
  let ?t = "ascii '' Field Trip ''" and ?d = "ascii ''2026-11-04''"
  have n: "now demo_env_west = 1793700000000" "tzOffset demo_env_west = - 18000000"
    "tzOffsetEnd demo_env_west = - 18000000"
    by (simp_all add: demo_env_west_def demo_env_def utcMidnight_def daysFromCivil_def
        msPerDay_def)
  have u: "utcMidnight 2026 11 3 = 1793664000000" "utcMidnight 2026 11 4 = 1793750400000"
    by (simp_all add: utcMidnight_def daysFromCivil_def msPerDay_def)
  have p: "dateParse demo_env_west ?d = Some 1793750400000"
    using demo_parse(2) by (simp add: demo_env_west_def)
  have e: "endOfToday (now demo_env_west) (tzOffset demo_env_west) (tzOffsetEnd demo_env_west)
             = 1793768399999"
    by (simp add: n endOfToday_def msPerDay_def)
  have f: "title (body demo_request_tomorrow) = Some ?t"
    "date (body demo_request_tomorrow) = Some ?d"
    "description (body demo_request_tomorrow) = None"
    "college_id (user demo_request_tomorrow) = Some (ascii ''college-1'')"
    "user_id (user demo_request_tomorrow) = Some (ascii ''student-1'')"
    "tenant demo_request_tomorrow = None"
    "params_id demo_request_tomorrow = Some (ascii ''m-1'')"
    "body demo_request_tomorrow = \<lparr>title = Some ?t, date = Some ?d, description = None\<rparr>"
    by (simp_all add: demo_request_tomorrow_def demo_request_def)
  have size: "int (fsize demo_file) \<le> fileSizeLimit (max_image_size demo_env_west)"
    using demo_file_size by (simp add: demo_env_west_def)
  have dn: "?d \<noteq> []" by (simp add: ascii_def)
  have le: "1793750400000 \<le> endOfToday (now demo_env_west) (tzOffset demo_env_west)
              (tzOffsetEnd demo_env_west)"
    by (simp add: e)
  have c: "js_or (college_id (user demo_request_tomorrow)) (tenant demo_request_tomorrow) =
             Some (ascii ''college-1'')"
    by (simp add: js_or_def f demo_truthy)
  have md: "memoryData ?t ?d None =
     \<lparr>title = Some (ascii ''Field Trip''), date = Some ?d, description = None\<rparr>"
    by (simp add: memoryData_def demo_title_trim)
  have svc: "\<And>md f uid cid. svc_createMemory demo_env_west md f uid cid =
       Inr \<lparr>mem_id = Some (ascii ''m-1''), mem_fields = md,
            photo = ascii ''memories/m-1.jpg'', ownerUserId = uid, tenantId = cid\<rparr>"
    "\<And>i uid cid u. svc_updateMemory demo_env_west i uid cid u =
       Inr \<lparr>mem_id = i, mem_fields = u, photo = ascii ''memories/m-1.jpg'',
            ownerUserId = uid, tenantId = cid\<rparr>"
    by (simp_all add: demo_env_west_def demo_env_def)
  have r: "resolveCollegeId demo_env_west demo_request_tomorrow =
             (Some (ascii ''college-1''), [])"
    by (simp add: resolveCollegeId_def js_or_def f demo_truthy)
  have "createMemory demo_env_west demo_request_tomorrow (Some demo_file) =
          persistMemory demo_env_west demo_request_tomorrow demo_file ?t ?d"
    using demo_file_allowed size f(1) demo_title_ok f(2) dn p le
    by (rule createMemory_checked)
  then have cr: "createMemory demo_env_west demo_request_tomorrow (Some demo_file) =
       (successResponse
          \<lparr>mem_id = Some (ascii ''m-1''),
           mem_fields = \<lparr>title = Some (ascii ''Field Trip''), date = Some ?d,
                         description = None\<rparr>,
           photo = ascii ''memories/m-1.jpg'', ownerUserId = Some (ascii ''student-1''),
           tenantId = Some (ascii ''college-1'')\<rparr>
          (ascii ''Memory created successfully'') 201,
        [CreateMemory \<lparr>title = Some (ascii ''Field Trip''), date = Some ?d,
                       description = None\<rparr>
           demo_file (Some (ascii ''student-1'')) (Some (ascii ''college-1''))])"
    by (simp add: persistMemory_def r demo_truthy f md svc)
  have v: "updateBodyValid demo_env_west demo_request_tomorrow"
    using demo_title_ok p le by (simp add: updateBodyValid_def f)
  have up: "updateMemory demo_env_west demo_request_tomorrow =
       (successResponse
          \<lparr>mem_id = Some (ascii ''m-1''),
           mem_fields = \<lparr>title = Some ?t, date = Some ?d, description = None\<rparr>,
           photo = ascii ''memories/m-1.jpg'', ownerUserId = Some (ascii ''student-1''),
           tenantId = Some (ascii ''college-1'')\<rparr>
          (ascii ''Memory updated successfully'') 200,
        [UpdateMemory (Some (ascii ''m-1'')) (Some (ascii ''student-1''))
           (Some (ascii ''college-1''))
           \<lparr>title = Some ?t, date = Some ?d, description = None\<rparr>])"
    unfolding updateMemory_checked [OF v] c by (simp add: f svc)
  show ?thesis
    using cr up p by (simp add: n u)
qed

subsection \<open>File types\<close>

text \<open>
  C8: an uploaded file whose extension, lower-cased, is not one of jpg, jpeg, png, gif,
  webp, heic and heif is refused with status 400 and a message that lists these seven,
  and no call is made to the persistence service.
\<close>

theorem createMemory_rejects_extension:
  assumes "fileExtension file \<notin> set allowedImageTypes"
  shows "createMemory env req (Some file) =
           (errorResponse (ascii ''File type not allowed. Allowed image types: jpg, jpeg, png, gif, webp, heic, heif'') 400, [])"
  using assms
  by (simp add: createMemory_def uploadMiddleware_def fileFilter_def createMemory_cb_def)
     (simp add: allowedImageTypes_def ascii_def)

theorem createMemory_rejects_extension_witness:
  "createMemory demo_env demo_request
     (Some \<lparr>originalname = ascii ''notes.pdf'', fsize = 1000, mimetype = ascii ''application/pdf''\<rparr>) =
     (errorResponse (ascii ''File type not allowed. Allowed image types: jpg, jpeg, png, gif, webp, heic, heif'') 400, [])"
proof -
  have "fileExtension \<lparr>originalname = ascii ''notes.pdf'', fsize = 1000, mimetype = ascii ''application/pdf''\<rparr>
         \<notin> set allowedImageTypes"
    by (simp add: fileExtension_def extname_def last_component_def toLowerCase_def
      js_lower_def ascii_def allowedImageTypes_def)
  then show ?thesis by (rule createMemory_rejects_extension)
qed

subsection \<open>The tenant outside create\<close>

text \<open>
  C10: when the tenant id of the session and the tenant of the request context are both
  empty, list, getById, update, delete and stats make no profile lookup: each makes the
  one call to its service, with the tenant of the request context as it is, and an
  update does so whenever its body passes the checks (it makes no call otherwise). None
  of them answers with the 400 error about the missing college id.
\<close>

theorem no_profile_fallback_outside_create:
  assumes "\<not> truthy (college_id (user req))" and "\<not> truthy (tenant req)"
    and "lost = errorResponse (ascii ''College ID not found. Please update your profile.'') 400"
    and "uid = user_id (user req)"
  shows "snd (getAllMemories env req) =
           [GetStudentMemories uid (tenant req)
              \<lparr>search = keepTruthy (search (query req)),
               startDate = keepTruthy (startDate (query req)),
               endDate = keepTruthy (endDate (query req))\<rparr>]
       \<and> snd (getMemoryById env req) = [GetMemoryById (params_id req) uid (tenant req)]
       \<and> snd (updateMemory env req) =
           (if updateBodyValid env req
            then [UpdateMemory (params_id req) uid (tenant req) (body req)] else [])
       \<and> snd (deleteMemory env req) = [DeleteMemory (params_id req) uid (tenant req)]
       \<and> snd (getMemoryStats env req) = [GetMemoryStats uid (tenant req)]
       \<and> fst (getAllMemories env req) \<noteq> lost \<and> fst (getMemoryById env req) \<noteq> lost
       \<and> fst (updateMemory env req) \<noteq> lost \<and> fst (deleteMemory env req) \<noteq> lost
       \<and> fst (getMemoryStats env req) \<noteq> lost"
proof -
  have c: "js_or (college_id (user req)) (tenant req) = tenant req"
    using assms(1) by (simp add: js_or_def)
  have 1: "snd (getAllMemories env req) =
           [GetStudentMemories uid (tenant req)
              \<lparr>search = keepTruthy (search (query req)),
               startDate = keepTruthy (startDate (query req)),
               endDate = keepTruthy (endDate (query req))\<rparr>]"
    by (simp add: getAllMemories_def c assms(4) Let_def split: sum.splits)
  have 2: "snd (getMemoryById env req) = [GetMemoryById (params_id req) uid (tenant req)]"
    by (simp add: getMemoryById_def c assms(4) Let_def split: sum.splits option.splits)
  have 3: "snd (updateMemory env req) =
           (if updateBodyValid env req
            then [UpdateMemory (params_id req) uid (tenant req) (body req)] else [])"
  proof (cases "updateBodyValid env req")
    case True
    then show ?thesis
      by (simp add: updateMemory_checked c assms(4) split: sum.splits)
  next
    case False
    then show ?thesis using updateMemory_refused [of env req] by simp
  qed
  have 4: "snd (deleteMemory env req) = [DeleteMemory (params_id req) uid (tenant req)]"
    by (simp add: deleteMemory_def c assms(4) Let_def split: sum.splits)
  have 5: "snd (getMemoryStats env req) = [GetMemoryStats uid (tenant req)]"
    by (simp add: getMemoryStats_def c assms(4) Let_def split: sum.splits)
  have s: "status lost = 400" "success lost = False"
    "message lost = ascii ''College ID not found. Please update your profile.''"
    by (simp_all add: assms(3) errorResponse_def)
  have 6: "status (fst (getAllMemories env req)) \<noteq> 400"
    by (simp add: getAllMemories_def Let_def successResponse_def errorResponse_def split: sum.splits)
  have 7: "status (fst (getMemoryById env req)) \<noteq> 400"
    by (simp add: getMemoryById_def Let_def successResponse_def errorResponse_def
        notFoundResponse_def split: sum.splits option.splits)
  have 9: "status (fst (deleteMemory env req)) \<noteq> 400"
    by (simp add: deleteMemory_def Let_def successResponse_def errorResponse_def
        notFoundResponse_def notFoundOr_def split: sum.splits option.splits)
  have 10: "status (fst (getMemoryStats env req)) \<noteq> 400"
    by (simp add: getMemoryStats_def Let_def successResponse_def errorResponse_def split: sum.splits)
  have 8: "status (fst (updateMemory env req)) = 400 \<longrightarrow>
     message (fst (updateMemory env req)) \<in> {ascii ''Title cannot be empty'',
       ascii ''Title must not exceed 200 characters'', ascii ''Invalid date format'',
       ascii ''Memory date cannot be in the future'', ascii ''No valid fields to update''}"
    by (simp add: updateMemory_def Let_def successResponse_def errorResponse_def
        notFoundResponse_def notFoundOr_def split: sum.splits option.splits)
  have upd: "fst (updateMemory env req) \<noteq> lost"
  proof
    assume e: "fst (updateMemory env req) = lost"
    with 8 s have "ascii ''College ID not found. Please update your profile.'' \<in> {ascii ''Title cannot be empty'',
       ascii ''Title must not exceed 200 characters'', ascii ''Invalid date format'',
       ascii ''Memory date cannot be in the future'', ascii ''No valid fields to update''}"
      by simp
    then show False by (simp add: ascii_def)
  qed
  show ?thesis using 1 2 3 4 5 6 7 upd 9 10 s by auto
qed

theorem no_profile_fallback_outside_create_witness:
  "snd (getMemoryById demo_env demo_request_no_tenant) =
     [GetMemoryById (Some (ascii ''m-1'')) (Some (ascii ''student-1'')) None]
   \<and> snd (updateMemory demo_env demo_request_no_tenant) =
     [UpdateMemory (Some (ascii ''m-1'')) (Some (ascii ''student-1'')) None
        \<lparr>title = Some (ascii '' Field Trip ''), date = Some (ascii ''2026-11-03''),
         description = None\<rparr>]
   \<and> snd (deleteMemory demo_env demo_request_no_tenant) =
     [DeleteMemory (Some (ascii ''m-1'')) (Some (ascii ''student-1'')) None]
   \<and> snd (getMemoryStats demo_env demo_request_no_tenant) =
     [GetMemoryStats (Some (ascii ''student-1'')) None]
   \<and> snd (getAllMemories demo_env demo_request_no_tenant) =
     [GetStudentMemories (Some (ascii ''student-1'')) None
        \<lparr>search = None, startDate = None, endDate = None\<rparr>]
   \<and> fst (updateMemory demo_env demo_request_no_tenant) \<noteq>
       errorResponse (ascii ''College ID not found. Please update your profile.'') 400"
proof -
  have v: "updateBodyValid demo_env demo_request_no_tenant"
    using demo_title_ok demo_parse(1) demo_not_future
    by (simp add: updateBodyValid_def demo_request_no_tenant_fields)
  have b: "body demo_request_no_tenant =
      \<lparr>title = Some (ascii '' Field Trip ''), date = Some (ascii ''2026-11-03''),
       description = None\<rparr>"
    "query demo_request_no_tenant = \<lparr>search = None, startDate = None, endDate = None\<rparr>"
    by (simp_all add: demo_request_no_tenant_def demo_request_def)
  show ?thesis
    using no_profile_fallback_outside_create
      [of demo_request_no_tenant _ _ demo_env, OF _ _ refl refl] v
    by (simp add: demo_request_no_tenant_fields demo_truthy b keepTruthy_def)
qed

end
